theory Spec2Isabelle
  imports Main "HOL-Library.Sublist"
begin

section \<open>Python values used by Ink.py\<close>

text \<open>
  A Python \<open>str\<close> is modelled as a \<open>string\<close> whose characters are its code points, so
  the model covers text in the range U+0000 to U+00FF; \<open>length\<close>, \<open>take\<close> and
  \<open>drop\<close> count code points as Python's \<open>len\<close> and slices do. \<open>startswith\<close> is
  \<open>prefix\<close> and the \<open>in\<close> test on strings is \<open>sublist\<close>, both of HOL-Library.Sublist.
\<close>

definition py_slice_from :: "int \<Rightarrow> 'a list \<Rightarrow> 'a list" where
  \<comment> \<open>\<open>xs[i:]\<close>: a negative start counts from the end, and every start is clamped\<close>
  "py_slice_from i xs =
     (let n = int (length xs);
          j = (if i < 0 then max 0 (n + i) else min i n)
      in drop (nat j) xs)"

fun join :: "string \<Rightarrow> string list \<Rightarrow> string" where
  \<comment> \<open>\<open>sep.join(xs)\<close>\<close>
  "join sep [] = []"
| "join sep [x] = x"
| "join sep (x # y # ys) = x @ sep @ join sep (y # ys)"

definition isspace :: "char \<Rightarrow> bool" where
  \<comment> \<open>\<open>str.isspace\<close> on one code point below 256\<close>
  "isspace c =
     (let n = (of_char c :: nat)
      in (9 \<le> n \<and> n \<le> 13) \<or> (28 \<le> n \<and> n \<le> 32) \<or> n = 133 \<or> n = 160)"

definition strip :: "string \<Rightarrow> string" where
  \<comment> \<open>\<open>s.strip()\<close>\<close>
  "strip s = rev (dropWhile isspace (rev (dropWhile isspace s)))"

definition lower_char :: "char \<Rightarrow> char" where
  \<comment> \<open>lower case of one code point below 256: A to Z, and U+00C0 to U+00DE but U+00D7\<close>
  "lower_char c =
     (let n = (of_char c :: nat)
      in if (65 \<le> n \<and> n \<le> 90) \<or> (192 \<le> n \<and> n \<le> 222 \<and> n \<noteq> 215)
         then char_of (n + 32) else c)"

definition lower :: "string \<Rightarrow> string" where
  \<comment> \<open>\<open>s.lower()\<close>\<close>
  "lower s = map lower_char s"

definition newline :: string where
  "newline = [CHR 0x0A]"

function digits :: "int \<Rightarrow> string" where
  \<comment> \<open>the decimal digits of \<open>n \<ge> 0\<close>, most significant first\<close>
  "digits n =
     (if n < 10 then [char_of (48 + n)]
      else digits (n div 10) @ [char_of (48 + n mod 10)])"
  by pat_completeness auto
termination
  by (relation "measure nat") auto

declare digits.simps [simp del]

definition str_of_int :: "int \<Rightarrow> string" where
  \<comment> \<open>\<open>str(i)\<close> of an integer, as the f-string formats it\<close>
  "str_of_int i = (if i < 0 then CHR ''-'' # digits (- i) else digits i)"

section \<open>The data model\<close>

text \<open>
  A turn is the dict \<open>{'role', 'content', 'timestamp'}\<close> that \<open>add_message\<close> builds and
  a thought the dict \<open>{'thought', 'timestamp'}\<close> of \<open>add_thinking\<close>; all their values
  are strings.
\<close>

record turn =
  role :: string
  content :: string
  timestamp :: string

record thought_entry =
  thought :: string
  thought_timestamp :: string

text \<open>The JSON object that \<open>save_memory\<close> dumps.\<close>

record snapshot =
  snap_current_session :: "turn list"
  snap_thinking_log :: "thought_entry list"
  last_updated :: string

text \<open>
  What \<open>svgwrite\<close> holds for a drawing: the file name, the size given to
  \<open>Drawing\<close>, and the elements added, each with the arguments of its call.
\<close>

datatype svg_element =
    Circle "int \<times> int" int string
      \<comment> \<open>\<open>center\<close>, \<open>r\<close>, \<open>fill\<close>\<close>
  | Rect "int \<times> int" "int \<times> int" string
      \<comment> \<open>\<open>insert\<close>, \<open>size\<close>, \<open>fill\<close>\<close>
  | Polygon "(int \<times> int) list" string
      \<comment> \<open>\<open>points\<close>, \<open>fill\<close>\<close>
  | Text string "int \<times> int" string string
      \<comment> \<open>the text, \<open>insert\<close>, \<open>text_anchor\<close>, \<open>font_size\<close>\<close>

record drawing =
  dwg_filename :: string
  dwg_size :: "string \<times> string"
  dwg_elements :: "svg_element list"

text \<open>
  A file holds a snapshot written by \<open>save_memory\<close>, a drawing saved by
  \<open>generate_svg\<close>, or content that \<open>json.load\<close> rejects; JSON of another shape
  than the snapshot is not modelled, and \<open>json.load\<close> is taken to give back what
  \<open>json.dump\<close> wrote. Opening, reading and writing a file are taken to succeed:
  \<open>setup_cache_folders\<close> has created the directories.
\<close>

datatype file_content = SnapshotFile snapshot | SvgFile drawing | Unparsable

text \<open>
  \<open>JSONDecodeError\<close> is the one error that leaves a function of the model; an
  \<open>Exception msg\<close> is an exception that a handler \<open>except Exception as e\<close> catches,
  with \<open>str(e) = msg\<close>.
\<close>

datatype error = JSONDecodeError

datatype exn = Exception string

primrec str :: "exn \<Rightarrow> string" where
  "str (Exception msg) = msg"

text \<open>
  The world outside the program: the files, the clock, the environment variables and
  the generative-language service. \<open>clock w k\<close> is what
  \<open>datetime.now().isoformat()\<close> gives and \<open>epoch w k\<close> what \<open>int(time.time())\<close>
  gives when it is the \<open>k\<close>-th reading of the time; \<open>reads\<close> counts the readings so far.
  \<open>gemini w key\<close> is the outcome of \<open>genai.configure(api_key=key)\<close> followed by
  \<open>genai.GenerativeModel('gemini-2.5-flash')\<close>: an exception, or a model \<open>g\<close>, where
  \<open>g prompt\<close> is the outcome of \<open>generate_content(prompt).text\<close>: an exception or
  the text. What the program prints is left out.
\<close>

record world =
  files :: "string \<rightharpoonup> file_content"
  clock :: "nat \<Rightarrow> string"
  epoch :: "nat \<Rightarrow> int"
  reads :: nat
  environ :: "string \<rightharpoonup> string"
  gemini :: "string \<Rightarrow> exn + (string \<Rightarrow> exn + string)"

definition now_isoformat :: "world \<Rightarrow> string \<times> world" where
  "now_isoformat w = (clock w (reads w), w\<lparr>reads := Suc (reads w)\<rparr>)"

definition time_time :: "world \<Rightarrow> int \<times> world" where
  "time_time w = (epoch w (reads w), w\<lparr>reads := Suc (reads w)\<rparr>)"

section \<open>INKMemory\<close>

record INKMemory =
  memory_file :: string
  current_session :: "turn list"
  thinking_log :: "thought_entry list"

definition load_memory :: "INKMemory \<Rightarrow> world \<Rightarrow> error + INKMemory" where
  "load_memory m w =
     (case files w (memory_file m) of
        None \<Rightarrow> Inr m
      | Some (SnapshotFile data) \<Rightarrow>
          Inr (m\<lparr>current_session := snap_current_session data,
                 thinking_log := snap_thinking_log data\<rparr>)
      | Some _ \<Rightarrow> Inl JSONDecodeError)"

definition INKMemory_init :: "world \<Rightarrow> error + INKMemory" where
  \<comment> \<open>\<open>INKMemory.__init__\<close>\<close>
  "INKMemory_init w =
     load_memory \<lparr>memory_file = ''cache/conversations/memory.json'',
                  current_session = [], thinking_log = []\<rparr> w"

definition save_memory :: "INKMemory \<Rightarrow> world \<Rightarrow> world" where
  "save_memory m w =
     (let (t, w1) = now_isoformat w
      in w1\<lparr>files := (files w1)(memory_file m \<mapsto>
            SnapshotFile \<lparr>snap_current_session = py_slice_from (- 100) (current_session m),
                          snap_thinking_log = py_slice_from (- 100) (thinking_log m),
                          last_updated = t\<rparr>)\<rparr>)"

definition add_message :: "INKMemory \<Rightarrow> string \<Rightarrow> string \<Rightarrow> world \<Rightarrow> INKMemory \<times> world" where
  "add_message m r c w =
     (let (t, w1) = now_isoformat w;
          m1 = m\<lparr>current_session :=
                   current_session m @ [\<lparr>role = r, content = c, timestamp = t\<rparr>]\<rparr>
      in (m1, save_memory m1 w1))"

definition add_thinking :: "INKMemory \<Rightarrow> string \<Rightarrow> world \<Rightarrow> INKMemory \<times> world" where
  "add_thinking m th w =
     (let (t, w1) = now_isoformat w;
          m1 = m\<lparr>thinking_log :=
                   thinking_log m @ [\<lparr>thought = th, thought_timestamp = t\<rparr>]\<rparr>
      in (m1, save_memory m1 w1))"

definition get_context :: "INKMemory \<Rightarrow> int \<Rightarrow> turn list" where
  \<comment> \<open>\<open>current_session[-limit:]\<close>; the callers that give no limit pass the default 10\<close>
  "get_context m limit = py_slice_from (- limit) (current_session m)"

definition clear_session :: "INKMemory \<Rightarrow> world \<Rightarrow> INKMemory \<times> world" where
  "clear_session m w =
     (let m1 = m\<lparr>current_session := [], thinking_log := []\<rparr>
      in (m1, save_memory m1 w))"

section \<open>INKAIEngine\<close>

record INKAIEngine =
  api_key :: string
  model :: "(string \<Rightarrow> exn + string) option"
  memory :: INKMemory
  training_mode :: bool

definition initialize_model :: "INKAIEngine \<Rightarrow> world \<Rightarrow> INKAIEngine" where
  "initialize_model e w =
     (if api_key e = [] then e
      else (case gemini w (api_key e) of
              Inr g \<Rightarrow> e\<lparr>model := Some g\<rparr>
            | Inl ex \<Rightarrow> e))"

definition INKAIEngine_init :: "world \<Rightarrow> error + INKAIEngine" where
  \<comment> \<open>\<open>INKAIEngine.__init__\<close>\<close>
  "INKAIEngine_init w =
     (case INKMemory_init w of
        Inl err \<Rightarrow> Inl err
      | Inr m \<Rightarrow>
          Inr (initialize_model
                 \<lparr>api_key = (case environ w ''GEMINI_API_KEY'' of None \<Rightarrow> [] | Some k \<Rightarrow> k),
                  model = None, memory = m, training_mode = False\<rparr> w))"

definition response_prompt :: "turn list \<Rightarrow> string \<Rightarrow> string" where
  \<comment> \<open>the local \<open>prompt\<close> of \<open>generate_response\<close>, built from \<open>context_text\<close>\<close>
  "response_prompt context user_input =
     (let context_text = join newline (map (\<lambda>m. role m @ '': '' @ content m) context)
      in ''Previous conversation:'' @ newline @ context_text @ newline @ newline @
         ''User: '' @ user_input @ newline @ newline @
         ''Respond as INK, an intelligent AI assistant. Be concise, accurate, and helpful. '' @
         ''If asked to generate code, provide clean, working code. '' @
         ''If asked to create an SVG, describe what you'' @ [CHR 0x27] @ ''d create.'')"

definition generate_response ::
  "INKAIEngine \<Rightarrow> string \<Rightarrow> world \<Rightarrow> (string \<times> string) \<times> INKAIEngine \<times> world" where
  \<comment> \<open>the dict returned is the pair of its \<open>'response'\<close> and its \<open>'thinking'\<close>\<close>
  "generate_response e user_input w =
     (case model e of
        None \<Rightarrow>
          ((''Please configure GEMINI_API_KEY to use INK AI.'',
            ''Model not initialized - API key missing''), e, w)
      | Some g \<Rightarrow>
          (let (m1, w1) = add_thinking (memory e)
                            (''Processing user input: '' @ take 50 user_input @ ''...'') w;
               context = get_context m1 10;
               prompt = response_prompt context user_input;
               (m2, w2) = add_thinking m1 ''Generating response from Gemini...'' w1
           in (case g prompt of
                 Inr ai_response \<Rightarrow>
                   (let (m3, w3) = add_message m2 ''user'' user_input w2;
                        (m4, w4) = add_message m3 ''assistant'' ai_response w3;
                        (m5, w5) = add_thinking m4 ''Response generated successfully'' w4
                    in ((ai_response,
                         join newline (map thought (py_slice_from (- 5) (thinking_log m5)))),
                        e\<lparr>memory := m5\<rparr>, w5))
               | Inl ex \<Rightarrow>
                   (let error_msg = ''Error: '' @ str ex;
                        (m3, w3) = add_thinking m2 error_msg w2
                    in ((''I encountered an error: '' @ str ex, error_msg),
                        e\<lparr>memory := m3\<rparr>, w3)))))"

definition code_prompt :: "string \<Rightarrow> string" where
  \<comment> \<open>the local \<open>prompt\<close> of \<open>generate_code\<close>\<close>
  "code_prompt description =
     ''Generate clean, working, production-ready code for: '' @ description @
     newline @ newline @
     ''Provide only the code without explanations. Make it blazing fast and correct.''"

definition none_generate_content :: exn where
  \<comment> \<open>the AttributeError of \<open>None.generate_content\<close>\<close>
  "none_generate_content =
     Exception ([CHR 0x27] @ ''NoneType'' @ [CHR 0x27] @ '' object has no attribute '' @
                [CHR 0x27] @ ''generate_content'' @ [CHR 0x27])"

definition generate_code ::
  "INKAIEngine \<Rightarrow> string \<Rightarrow> world \<Rightarrow> string \<times> INKAIEngine \<times> world" where
  "generate_code e description w =
     (let (m1, w1) = add_thinking (memory e)
                       (''Code generation requested: '' @ description) w;
          prompt = code_prompt description
      in (case (case model e of None \<Rightarrow> Inl none_generate_content | Some g \<Rightarrow> g prompt) of
            Inr code \<Rightarrow>
              (let (m2, w2) = add_thinking m1 ''Code generated successfully'' w1
               in (code, e\<lparr>memory := m2\<rparr>, w2))
          | Inl ex \<Rightarrow> (''Error generating code: '' @ str ex, e\<lparr>memory := m1\<rparr>, w1)))"

definition train_mode ::
  "INKAIEngine \<Rightarrow> string \<Rightarrow> world \<Rightarrow> string \<times> INKAIEngine \<times> world" where
  "train_mode e instruction w =
     (let e1 = e\<lparr>training_mode := True\<rparr>;
          (m1, w1) = add_thinking (memory e1)
                       (''Training instruction received: '' @ instruction) w
      in (''Training mode activated. Instruction: '' @ instruction, e1\<lparr>memory := m1\<rparr>, w1))"

section \<open>generate_svg\<close>

definition star_points :: "(int \<times> int) list" where
  "star_points = [(200, 50), (230, 150), (350, 150), (250, 220), (280, 320),
                  (200, 250), (120, 320), (150, 220), (50, 150), (170, 150)]"

definition generate_svg :: "string \<Rightarrow> string \<Rightarrow> world \<Rightarrow> string \<times> world" where
  \<comment> \<open>a caller that gives no file name passes the default \<open>output.svg\<close>\<close>
  "generate_svg description filename w =
     (let filepath = ''cache/images/'' @ filename;
          dwg = \<lparr>dwg_filename = filepath, dwg_size = (''400px'', ''400px''),
                 dwg_elements = []\<rparr>;
          dwg1 =
            (if sublist ''circle'' (lower description) then
               dwg\<lparr>dwg_elements := dwg_elements dwg @ [Circle (200, 200) 100 ''blue'']\<rparr>
             else if sublist ''rect'' (lower description) \<or>
                     sublist ''square'' (lower description) then
               dwg\<lparr>dwg_elements := dwg_elements dwg @ [Rect (100, 100) (200, 200) ''green'']\<rparr>
             else if sublist ''star'' (lower description) then
               dwg\<lparr>dwg_elements := dwg_elements dwg @ [Polygon star_points ''gold'']\<rparr>
             else
               dwg\<lparr>dwg_elements := dwg_elements dwg @
                     [Rect (50, 50) (300, 300) ''lightgray'',
                      Text (take 20 description) (200, 200) ''middle'' ''20px'']\<rparr>)
      in (filepath, w\<lparr>files := (files w)(filepath \<mapsto> SvgFile dwg1)\<rparr>))"

section \<open>The routes\<close>

text \<open>
  \<open>chat\<close> works on the one engine of the process, \<open>ink_engine\<close>, which the model
  passes in and out. Its argument is the text that \<open>data.get('message', '')\<close> gives, and
  its result the pair of the \<open>'response'\<close> and the \<open>'thinking'\<close> of the reply.
\<close>

definition chat ::
  "INKAIEngine \<Rightarrow> string \<Rightarrow> world \<Rightarrow> (string \<times> string) \<times> INKAIEngine \<times> world" where
  "chat e user_message w =
     (if prefix ''/train'' user_message then
        (let instruction = strip (drop 7 user_message);
             (response, e1, w1) = train_mode e instruction w
         in ((response, ''Entering training mode''), e1, w1))
      else if prefix ''/code'' user_message then
        (let description = strip (drop 6 user_message);
             (response, e1, w1) = generate_code e description w
         in ((response, ''Generating code''), e1, w1))
      else if prefix ''/svg'' user_message then
        (let description = strip (drop 5 user_message);
             (t, w1) = time_time w;
             filename = ''svg_'' @ str_of_int t @ ''.svg'';
             (filepath, w2) = generate_svg description filename w1
         in ((''SVG created! View it at: /images/'' @ filename, ''Generating SVG image''),
             e, w2))
      else if prefix ''/clear'' user_message then
        (let (m1, w1) = clear_session (memory e) w
         in ((''Memory cleared!'', ''Session reset''), e\<lparr>memory := m1\<rparr>, w1))
      else
        (let (result, e1, w1) = generate_response e user_message w
         in ((fst result, snd result), e1, w1)))"

definition get_thinking :: "INKAIEngine \<Rightarrow> string" where
  "get_thinking e = join newline (map thought (py_slice_from (- 10) (thinking_log (memory e))))"

section \<open>Notions for the statements\<close>

text \<open>
  A sequence of appends to the store: \<open>AppendTurn r c\<close> is the call
  \<open>add_message(r, c)\<close> and \<open>AppendThought th\<close> the call \<open>add_thinking(th)\<close>.
  \<open>run_ops\<close> makes the calls in order.
\<close>

datatype store_op = AppendTurn string string | AppendThought string

fun apply_op :: "store_op \<Rightarrow> INKMemory \<times> world \<Rightarrow> INKMemory \<times> world" where
  "apply_op (AppendTurn r c) (m, w) = add_message m r c w"
| "apply_op (AppendThought th) (m, w) = add_thinking m th w"

definition run_ops :: "store_op list \<Rightarrow> INKMemory \<times> world \<Rightarrow> INKMemory \<times> world" where
  "run_ops ops s = fold apply_op ops s"

text \<open>
  The entries that a sequence of appends creates, in the order of the calls. Every call
  reads the clock twice, for its entry and then for \<open>last_updated\<close>, so the entry
  of the call after the one that read the clock at \<open>k\<close> has the reading at \<open>k + 2\<close>.
\<close>

fun turns_of :: "(nat \<Rightarrow> string) \<Rightarrow> nat \<Rightarrow> store_op list \<Rightarrow> turn list" where
  "turns_of clk k [] = []"
| "turns_of clk k (AppendTurn r c # ops) =
     \<lparr>role = r, content = c, timestamp = clk k\<rparr> # turns_of clk (k + 2) ops"
| "turns_of clk k (AppendThought th # ops) = turns_of clk (k + 2) ops"

fun thoughts_of :: "(nat \<Rightarrow> string) \<Rightarrow> nat \<Rightarrow> store_op list \<Rightarrow> thought_entry list" where
  "thoughts_of clk k [] = []"
| "thoughts_of clk k (AppendTurn r c # ops) = thoughts_of clk (k + 2) ops"
| "thoughts_of clk k (AppendThought th # ops) =
     \<lparr>thought = th, thought_timestamp = clk k\<rparr> # thoughts_of clk (k + 2) ops"

text \<open>What a path holds, when it holds a snapshot or a drawing.\<close>

definition snapshot_at :: "world \<Rightarrow> string \<Rightarrow> snapshot option" where
  "snapshot_at w path = (case files w path of Some (SnapshotFile s) \<Rightarrow> Some s | _ \<Rightarrow> None)"

definition drawing_at :: "world \<Rightarrow> string \<Rightarrow> drawing option" where
  "drawing_at w path = (case files w path of Some (SvgFile d) \<Rightarrow> Some d | _ \<Rightarrow> None)"

text \<open>
  Containment that ignores case: some contiguous part of \<open>d\<close> is \<open>k\<close> up to the
  case of its letters.
\<close>

definition occurs_ignoring_case :: "string \<Rightarrow> string \<Rightarrow> bool" where
  "occurs_ignoring_case k d = (\<exists>ps u ss. d = ps @ u @ ss \<and> lower u = lower k)"

text \<open>Concrete inputs: a world with no files and no API key, and engines in it.\<close>

definition example_world :: world where
  "example_world =
     \<lparr>files = Map.empty, clock = (\<lambda>k. ''2025-01-01T00:00:'' @ str_of_int (int k)),
      epoch = (\<lambda>k. 1700000000 + int k), reads = 0, environ = Map.empty,
      gemini = (\<lambda>key. Inl (Exception ''invalid key''))\<rparr>"

definition example_memory :: INKMemory where
  "example_memory =
     \<lparr>memory_file = ''cache/conversations/memory.json'',
      current_session = [\<lparr>role = ''user'', content = ''hello'', timestamp = ''2024-12-31T23:59:59''\<rparr>],
      thinking_log = []\<rparr>"

definition example_engine :: INKAIEngine where
  "example_engine = \<lparr>api_key = [], model = None, memory = example_memory, training_mode = False\<rparr>"

definition failing_model :: "string \<Rightarrow> exn + string" where
  "failing_model prompt = Inl (Exception ''quota exceeded'')"

definition failing_engine :: INKAIEngine where
  "failing_engine = example_engine\<lparr>api_key := ''key'', model := Some failing_model\<rparr>"

section \<open>Slices and strings\<close>

lemma py_slice_from_Nil: "py_slice_from i [] = []"
  by (simp add: py_slice_from_def)

lemma py_slice_from_zero: "py_slice_from 0 xs = xs"
  by (simp add: py_slice_from_def)

lemma py_slice_from_last:
  "0 < k \<Longrightarrow> py_slice_from (- int k) xs = drop (length xs - k) xs"
  by (auto simp add: py_slice_from_def Let_def max_def nat_diff_distrib' not_le)

lemma py_slice_from_100: "py_slice_from (- 100) xs = drop (length xs - 100) xs"
  using py_slice_from_last [of 100 xs] by simp

lemma sublist_lower:
  assumes "lower k = k"
  shows "sublist k (lower d) = occurs_ignoring_case k d"
proof
  assume "sublist k (lower d)"
  then obtain ps' ss' where "map lower_char d = ps' @ k @ ss'"
    by (auto simp add: sublist_def lower_def)
  then obtain us vs where d: "d = us @ vs" and "k @ ss' = map lower_char vs"
    by (auto simp add: map_eq_append_conv)
  then obtain u ss where vs: "vs = u @ ss" and "k = map lower_char u"
    by (auto simp add: append_eq_map_conv)
  then have "lower u = lower k"
    using assms by (simp add: lower_def)
  with d vs show "occurs_ignoring_case k d"
    unfolding occurs_ignoring_case_def by blast
next
  assume "occurs_ignoring_case k d"
  then obtain ps u ss where "d = ps @ u @ ss" and "lower u = k"
    using assms by (auto simp add: occurs_ignoring_case_def)
  then have "lower d = lower ps @ k @ lower ss"
    by (simp add: lower_def)
  then show "sublist k (lower d)"
    by (simp add: sublist_def) blast
qed

section \<open>Effects of the store operations\<close>

lemma save_memory_fields:
  "files (save_memory m w) = (files w)(memory_file m \<mapsto>
      SnapshotFile \<lparr>snap_current_session = py_slice_from (- 100) (current_session m),
                    snap_thinking_log = py_slice_from (- 100) (thinking_log m),
                    last_updated = clock w (reads w)\<rparr>)"
  "reads (save_memory m w) = Suc (reads w)"
  "clock (save_memory m w) = clock w"
  "epoch (save_memory m w) = epoch w"
  "environ (save_memory m w) = environ w"
  "gemini (save_memory m w) = gemini w"
  by (simp_all add: save_memory_def now_isoformat_def)

lemma add_message_fields:
  "current_session (fst (add_message m r c w)) =
     current_session m @ [\<lparr>role = r, content = c, timestamp = clock w (reads w)\<rparr>]"
  "thinking_log (fst (add_message m r c w)) = thinking_log m"
  "memory_file (fst (add_message m r c w)) = memory_file m"
  "reads (snd (add_message m r c w)) = reads w + 2"
  "clock (snd (add_message m r c w)) = clock w"
  "files (snd (add_message m r c w)) = (files w)(memory_file m \<mapsto>
      SnapshotFile \<lparr>snap_current_session = py_slice_from (- 100) (current_session (fst (add_message m r c w))),
                    snap_thinking_log = py_slice_from (- 100) (thinking_log m),
                    last_updated = clock w (Suc (reads w))\<rparr>)"
  by (simp_all add: add_message_def now_isoformat_def save_memory_fields Let_def)

lemma add_thinking_fields:
  "thinking_log (fst (add_thinking m th w)) =
     thinking_log m @ [\<lparr>thought = th, thought_timestamp = clock w (reads w)\<rparr>]"
  "current_session (fst (add_thinking m th w)) = current_session m"
  "memory_file (fst (add_thinking m th w)) = memory_file m"
  "reads (snd (add_thinking m th w)) = reads w + 2"
  "clock (snd (add_thinking m th w)) = clock w"
  "files (snd (add_thinking m th w)) = (files w)(memory_file m \<mapsto>
      SnapshotFile \<lparr>snap_current_session = py_slice_from (- 100) (current_session m),
                    snap_thinking_log = py_slice_from (- 100) (thinking_log (fst (add_thinking m th w))),
                    last_updated = clock w (Suc (reads w))\<rparr>)"
  by (simp_all add: add_thinking_def now_isoformat_def save_memory_fields Let_def)

lemma apply_op_fields:
  "current_session (fst (apply_op op (m, w))) = current_session m @ turns_of (clock w) (reads w) [op]"
  "thinking_log (fst (apply_op op (m, w))) = thinking_log m @ thoughts_of (clock w) (reads w) [op]"
  "memory_file (fst (apply_op op (m, w))) = memory_file m"
  "reads (snd (apply_op op (m, w))) = reads w + 2"
  "clock (snd (apply_op op (m, w))) = clock w"
  "snapshot_at (snd (apply_op op (m, w))) (memory_file m) =
     Some \<lparr>snap_current_session = py_slice_from (- 100) (current_session (fst (apply_op op (m, w)))),
           snap_thinking_log = py_slice_from (- 100) (thinking_log (fst (apply_op op (m, w)))),
           last_updated = clock w (Suc (reads w))\<rparr>"
  by (cases op; simp add: add_message_fields add_thinking_fields snapshot_at_def)+

lemma run_ops_Cons: "run_ops (op # ops) (m, w) = run_ops ops (apply_op op (m, w))"
  by (simp add: run_ops_def)

lemma turns_of_Cons: "turns_of clk k (op # ops) = turns_of clk k [op] @ turns_of clk (k + 2) ops"
  by (cases op) simp_all

lemma thoughts_of_Cons:
  "thoughts_of clk k (op # ops) = thoughts_of clk k [op] @ thoughts_of clk (k + 2) ops"
  by (cases op) simp_all

lemma run_ops_memory:
  "current_session (fst (run_ops ops (m, w))) = current_session m @ turns_of (clock w) (reads w) ops \<and>
   thinking_log (fst (run_ops ops (m, w))) = thinking_log m @ thoughts_of (clock w) (reads w) ops \<and>
   memory_file (fst (run_ops ops (m, w))) = memory_file m \<and>
   reads (snd (run_ops ops (m, w))) = reads w + 2 * length ops \<and>
   clock (snd (run_ops ops (m, w))) = clock w"
proof (induction ops arbitrary: m w)
  case Nil
  show ?case by (simp add: run_ops_def)
next
  case (Cons op ops)
  obtain m1 w1 where s: "apply_op op (m, w) = (m1, w1)" by (cases "apply_op op (m, w)")
  have f: "current_session m1 = current_session m @ turns_of (clock w) (reads w) [op]"
    "thinking_log m1 = thinking_log m @ thoughts_of (clock w) (reads w) [op]"
    "memory_file m1 = memory_file m" "reads w1 = reads w + 2" "clock w1 = clock w"
    using apply_op_fields [of op m w] by (simp_all add: s)
  show ?case
    using Cons.IH [of m1 w1]
    by (simp add: run_ops_Cons s f turns_of_Cons [of _ _ op ops] thoughts_of_Cons [of _ _ op ops])
qed

lemma run_ops_snapshot:
  "ops \<noteq> [] \<Longrightarrow>
   snapshot_at (snd (run_ops ops (m, w))) (memory_file m) =
     Some \<lparr>snap_current_session = py_slice_from (- 100) (current_session (fst (run_ops ops (m, w)))),
           snap_thinking_log = py_slice_from (- 100) (thinking_log (fst (run_ops ops (m, w)))),
           last_updated = clock w (reads w + 2 * length ops - 1)\<rparr>"
proof (induction ops arbitrary: m w)
  case Nil
  then show ?case by simp
next
  case (Cons op ops)
  obtain m1 w1 where s: "apply_op op (m, w) = (m1, w1)" by (cases "apply_op op (m, w)")
  have f: "memory_file m1 = memory_file m" "reads w1 = reads w + 2" "clock w1 = clock w"
    using apply_op_fields [of op m w] by (simp_all add: s)
  show ?case
  proof (cases "ops = []")
    case True
    then show ?thesis using apply_op_fields(6) [of op m w] by (simp add: run_ops_def)
  next
    case False
    then show ?thesis using Cons.IH [of m1 w1] by (simp add: run_ops_Cons s f)
  qed
qed

lemma turns_of_all_turns:
  "\<forall>op \<in> set ops. \<exists>r c. op = AppendTurn r c \<Longrightarrow> length (turns_of clk k ops) = length ops"
  by (induction ops arbitrary: k) auto

section \<open>The conversation store\<close>

text \<open>
  C1: after every non-empty sequence of \<open>add_message\<close> and \<open>add_thinking\<close> calls,
  from any store, the snapshot in the memory file holds the last 100 turns and the last
  100 thoughts of the store (all of them when there are fewer), so at most 100 of each;
  after more than 100 appended turns it holds exactly the last 100 of the appended turns,
  in the order of the calls.
\<close>

theorem snapshot_window:
  assumes "ops \<noteq> []"
  shows "\<exists>s. snapshot_at (snd (run_ops ops (m, w))) (memory_file m) = Some s \<and>
    length (snap_current_session s) \<le> 100 \<and> length (snap_thinking_log s) \<le> 100 \<and>
    snap_current_session s =
      drop (length (current_session m @ turns_of (clock w) (reads w) ops) - 100)
        (current_session m @ turns_of (clock w) (reads w) ops) \<and>
    snap_thinking_log s =
      drop (length (thinking_log m @ thoughts_of (clock w) (reads w) ops) - 100)
        (thinking_log m @ thoughts_of (clock w) (reads w) ops) \<and>
    ((\<forall>op \<in> set ops. \<exists>r c. op = AppendTurn r c) \<and> 100 < length ops \<longrightarrow>
       snap_current_session s = drop (length ops - 100) (turns_of (clock w) (reads w) ops))"
  using run_ops_snapshot [OF assms, of m w] run_ops_memory [of ops m w]
  by (auto simp add: py_slice_from_100 turns_of_all_turns)

theorem snapshot_window_witness:
  "replicate 101 (AppendTurn ''user'' ''hi'') \<noteq> [] \<and>
   set (replicate 101 (AppendTurn ''user'' ''hi'')) = {AppendTurn ''user'' ''hi''} \<and>
   100 < length (replicate 101 (AppendTurn ''user'' ''hi'')) \<and>
   (\<exists>s. snapshot_at (snd (run_ops (replicate 101 (AppendTurn ''user'' ''hi''))
             (example_memory, example_world))) (memory_file example_memory) = Some s \<and>
        length (snap_current_session s) \<le> 100 \<and>
        snap_current_session s =
          drop 1 (turns_of (clock example_world) (reads example_world)
                    (replicate 101 (AppendTurn ''user'' ''hi''))))"
  using snapshot_window [of "replicate 101 (AppendTurn ''user'' ''hi'')"
      example_memory example_world]
  by auto

text \<open>
  C2: saving a store with at most 100 turns and then making a fresh \<open>INKMemory\<close>,
  which loads the memory file, gives a store with the same turns: the same records, so
  the same role, content and timestamp in each.
\<close>

theorem save_load_roundtrip:
  assumes "length (current_session m) \<le> 100"
    and "memory_file m = ''cache/conversations/memory.json''"
  shows "\<exists>m'. INKMemory_init (save_memory m w) = Inr m' \<and>
               current_session m' = current_session m"
  using assms
  by (simp add: INKMemory_init_def load_memory_def save_memory_fields py_slice_from_100)

theorem save_load_roundtrip_witness:
  "length (current_session example_memory) \<le> 100 \<and>
   memory_file example_memory = ''cache/conversations/memory.json'' \<and>
   (\<exists>m'. INKMemory_init (save_memory example_memory example_world) = Inr m' \<and>
         current_session m' =
           [\<lparr>role = ''user'', content = ''hello'', timestamp = ''2024-12-31T23:59:59''\<rparr>])"
  using save_load_roundtrip [of example_memory example_world]
  by (simp add: example_memory_def)

text \<open>
  C8: from every store, \<open>clear_session\<close> leaves no turn and no thought, after it
  \<open>get_context\<close> gives the empty list for every limit, and the snapshot in the memory
  file has no turn and no thought.
\<close>

theorem clear_session_empties:
  "current_session (fst (clear_session m w)) = [] \<and>
   thinking_log (fst (clear_session m w)) = [] \<and>
   get_context (fst (clear_session m w)) limit = [] \<and>
   snapshot_at (snd (clear_session m w)) (memory_file m) =
     Some \<lparr>snap_current_session = [], snap_thinking_log = [],
           last_updated = clock w (reads w)\<rparr>"
  by (simp add: clear_session_def Let_def get_context_def py_slice_from_Nil snapshot_at_def
      save_memory_fields)

text \<open>
  C10: \<open>get_context\<close> with limit 0 returns the whole turn sequence, since
  \<open>current_session[-0:]\<close> is the whole list; on a non-empty sequence this is not the
  last 0 turns, which would be the empty sequence.
\<close>

theorem get_context_limit_zero:
  "get_context m 0 = current_session m \<and>
   (current_session m \<noteq> [] \<longrightarrow> get_context m 0 \<noteq> [])"
  by (simp add: get_context_def py_slice_from_zero)

theorem get_context_limit_zero_witness:
  "current_session example_memory \<noteq> [] \<and>
   get_context example_memory 0 =
     [\<lparr>role = ''user'', content = ''hello'', timestamp = ''2024-12-31T23:59:59''\<rparr>] \<and>
   get_context example_memory 0 \<noteq> []"
  using get_context_limit_zero [of example_memory]
  by (simp add: example_memory_def)

section \<open>The response generator\<close>

lemma initialize_model_no_key: "api_key e = [] \<Longrightarrow> initialize_model e w = e"
  by (simp add: initialize_model_def)

text \<open>
  C4: when the engine has no model, which is so when no API key is configured,
  \<open>generate_response\<close> returns the fixed text asking to configure the key and the
  fixed diagnostic, and leaves the engine and the world as they are: no turn and no
  thought is added, and no file is written.
\<close>

theorem generate_response_no_model:
  assumes "model e = None"
  shows "generate_response e user_input w =
     ((''Please configure GEMINI_API_KEY to use INK AI.'',
       ''Model not initialized - API key missing''), e, w)"
  using assms by (simp add: generate_response_def)

theorem generate_response_no_model_witness:
  "model example_engine = None \<and>
   generate_response example_engine ''hi'' example_world =
     ((''Please configure GEMINI_API_KEY to use INK AI.'',
       ''Model not initialized - API key missing''), example_engine, example_world)"
  using generate_response_no_model [of example_engine "''hi''" example_world]
  by (simp add: example_engine_def)

text \<open>
  C5: when the call of the model inside \<open>generate_response\<close> raises an exception,
  \<open>generate_response\<close> returns normally, with a message that embeds the error text and
  with \<open>Error:\<close> and the error text as diagnostic; the thoughts recorded are the two
  made before the call and one that holds the diagnostic; and no turn is added, in the
  store or in the snapshot.
\<close>

theorem generate_response_failure:
  assumes "model e = Some g"
    and "g (response_prompt (get_context (memory e) 10) user_input) = Inl ex"
  shows "\<exists>e' w'. generate_response e user_input w =
           ((''I encountered an error: '' @ str ex, ''Error: '' @ str ex), e', w') \<and>
         current_session (memory e') = current_session (memory e) \<and>
         thinking_log (memory e') = thinking_log (memory e) @
           [\<lparr>thought = ''Processing user input: '' @ take 50 user_input @ ''...'',
             thought_timestamp = clock w (reads w)\<rparr>,
            \<lparr>thought = ''Generating response from Gemini...'',
             thought_timestamp = clock w (reads w + 2)\<rparr>,
            \<lparr>thought = ''Error: '' @ str ex, thought_timestamp = clock w (reads w + 4)\<rparr>] \<and>
         (\<exists>s. snapshot_at w' (memory_file (memory e)) = Some s \<and>
              snap_current_session s =
                drop (length (current_session (memory e)) - 100) (current_session (memory e)))"
proof -
  let ?t1 = "''Processing user input: '' @ take 50 user_input @ ''...''"
  let ?t2 = "''Generating response from Gemini...''"
  let ?t3 = "''Error: '' @ str ex"
  define m1 where "m1 = fst (add_thinking (memory e) ?t1 w)"
  define w1 where "w1 = snd (add_thinking (memory e) ?t1 w)"
  define m2 where "m2 = fst (add_thinking m1 ?t2 w1)"
  define w2 where "w2 = snd (add_thinking m1 ?t2 w1)"
  define m3 where "m3 = fst (add_thinking m2 ?t3 w2)"
  define w3 where "w3 = snd (add_thinking m2 ?t3 w2)"
  have a1: "add_thinking (memory e) ?t1 w = (m1, w1)"
    unfolding m1_def w1_def by simp
  have a2: "add_thinking m1 ?t2 w1 = (m2, w2)"
    unfolding m2_def w2_def by simp
  have a3: "add_thinking m2 ?t3 w2 = (m3, w3)"
    unfolding m3_def w3_def by simp
  have f1: "current_session m1 = current_session (memory e)"
    "thinking_log m1 = thinking_log (memory e) @
       [\<lparr>thought = ?t1, thought_timestamp = clock w (reads w)\<rparr>]"
    "memory_file m1 = memory_file (memory e)" "reads w1 = reads w + 2" "clock w1 = clock w"
    unfolding m1_def w1_def by (rule add_thinking_fields)+
  have f2: "current_session m2 = current_session m1"
    "thinking_log m2 = thinking_log m1 @
       [\<lparr>thought = ?t2, thought_timestamp = clock w1 (reads w1)\<rparr>]"
    "memory_file m2 = memory_file m1" "reads w2 = reads w1 + 2" "clock w2 = clock w1"
    unfolding m2_def w2_def by (rule add_thinking_fields)+
  have f3: "current_session m3 = current_session m2"
    "thinking_log m3 = thinking_log m2 @
       [\<lparr>thought = ?t3, thought_timestamp = clock w2 (reads w2)\<rparr>]"
    "files w3 = (files w2)(memory_file m2 \<mapsto>
      SnapshotFile \<lparr>snap_current_session = py_slice_from (- 100) (current_session m2),
                    snap_thinking_log = py_slice_from (- 100) (thinking_log m3),
                    last_updated = clock w2 (Suc (reads w2))\<rparr>)"
    unfolding m3_def w3_def by (rule add_thinking_fields)+
  have ctx: "get_context m1 10 = get_context (memory e) 10"
    by (simp add: get_context_def f1)
  have r: "generate_response e user_input w =
      ((''I encountered an error: '' @ str ex, ?t3), e\<lparr>memory := m3\<rparr>, w3)"
    unfolding generate_response_def a1 using assms
    by (simp add: ctx a2 Let_def split_beta m3_def w3_def)
  show ?thesis
    unfolding r by (simp add: f1 f2 f3 snapshot_at_def py_slice_from_100 eval_nat_numeral)
qed

theorem generate_response_failure_witness:
  "model failing_engine = Some failing_model \<and>
   failing_model (response_prompt (get_context (memory failing_engine) 10) ''hi'') =
     Inl (Exception ''quota exceeded'') \<and>
   fst (generate_response failing_engine ''hi'' example_world) =
     (''I encountered an error: quota exceeded'', ''Error: quota exceeded'') \<and>
   current_session (memory (fst (snd (generate_response failing_engine ''hi'' example_world)))) =
     current_session (memory failing_engine)"
  using generate_response_failure [of failing_engine failing_model "''hi''"
      "Exception ''quota exceeded''" example_world]
  by (auto simp add: failing_engine_def failing_model_def)

lemma INKAIEngine_init_no_key:
  assumes "environ w ''GEMINI_API_KEY'' = None \<or> environ w ''GEMINI_API_KEY'' = Some []"
    and "INKAIEngine_init w = Inr e"
  shows "model e = None"
  using assms
  by (auto simp add: INKAIEngine_init_def initialize_model_no_key split: sum.splits)

text \<open>
  C9: with no model, \<open>generate_response\<close> returns the fixed text asking to configure
  the key, and \<open>generate_code\<close> returns normally too, but not with that text:
  \<open>generate_code\<close> has no guard on the model, so the call on \<open>None\<close> raises an
  AttributeError inside its \<open>try\<close>, and what it returns is
  \<open>Error generating code:\<close> followed by the text of that AttributeError, after it has
  recorded a thought.
\<close>

theorem generate_code_no_model:
  assumes "model e = None"
  shows "generate_code e description w =
     (''Error generating code: '' @ [CHR 0x27] @ ''NoneType'' @ [CHR 0x27] @
        '' object has no attribute '' @ [CHR 0x27] @ ''generate_content'' @ [CHR 0x27],
      e\<lparr>memory := fst (add_thinking (memory e)
                         (''Code generation requested: '' @ description) w)\<rparr>,
      snd (add_thinking (memory e) (''Code generation requested: '' @ description) w)) \<and>
    fst (generate_code e description w) \<noteq> ''Please configure GEMINI_API_KEY to use INK AI.'' \<and>
    fst (fst (generate_response e description w)) =
      ''Please configure GEMINI_API_KEY to use INK AI.''"
  using assms
  by (simp add: generate_code_def generate_response_def none_generate_content_def split_beta)

theorem generate_code_no_model_witness:
  "model example_engine = None \<and>
   fst (generate_code example_engine ''sort a list'' example_world) \<noteq>
     ''Please configure GEMINI_API_KEY to use INK AI.'' \<and>
   thinking_log (memory (fst (snd (generate_code example_engine ''sort a list'' example_world)))) =
     [\<lparr>thought = ''Code generation requested: sort a list'',
       thought_timestamp = ''2025-01-01T00:00:0''\<rparr>]"
proof -
  have c: "clock example_world (reads example_world) = ''2025-01-01T00:00:0''"
    by code_simp
  show ?thesis
    using generate_code_no_model [of example_engine "''sort a list''" example_world]
    by (simp add: example_engine_def example_memory_def add_thinking_fields c)
qed

section \<open>The dispatcher\<close>

lemma strip_skip_space: "isspace c \<Longrightarrow> strip (c # s) = strip s"
  by (simp add: strip_def)

lemma prefixes_exclusive:
  "length (filter (\<lambda>p. prefix p msg) [''/train'', ''/code'', ''/svg'', ''/clear'']) \<le> 1"
  by (auto simp add: prefix_def)

lemma strip_example: "strip (drop 6 ''/code /svg draw a circle'') = ''/svg draw a circle''"
  by code_simp

text \<open>
  C3: \<open>chat\<close> takes the route of the prefix that the message starts with, compared
  character by character, so with its case: \<open>/train\<close>, \<open>/code\<close>, \<open>/svg\<close> or
  \<open>/clear\<close>, and the default route when it starts with none of them. A message starts
  with at most one of the four prefixes, so exactly one of the five routes is taken. The
  message \<open>/code /svg draw a circle\<close> takes the code route, with
  \<open>/svg draw a circle\<close> as the description.
\<close>

theorem chat_routes:
  "(prefix ''/train'' msg \<longrightarrow>
      chat e msg w =
        (case train_mode e (strip (drop 7 msg)) w of
           (response, e1, w1) \<Rightarrow> ((response, ''Entering training mode''), e1, w1))) \<and>
   (prefix ''/code'' msg \<longrightarrow>
      chat e msg w =
        (case generate_code e (strip (drop 6 msg)) w of
           (response, e1, w1) \<Rightarrow> ((response, ''Generating code''), e1, w1))) \<and>
   (prefix ''/svg'' msg \<longrightarrow>
      chat e msg w =
        ((''SVG created! View it at: /images/svg_'' @ str_of_int (epoch w (reads w)) @ ''.svg'',
          ''Generating SVG image''), e,
         snd (generate_svg (strip (drop 5 msg))
                (''svg_'' @ str_of_int (epoch w (reads w)) @ ''.svg'')
                (w\<lparr>reads := Suc (reads w)\<rparr>)))) \<and>
   (prefix ''/clear'' msg \<longrightarrow>
      chat e msg w =
        ((''Memory cleared!'', ''Session reset''),
         e\<lparr>memory := fst (clear_session (memory e) w)\<rparr>,
         snd (clear_session (memory e) w))) \<and>
   (\<not> prefix ''/train'' msg \<and> \<not> prefix ''/code'' msg \<and>
    \<not> prefix ''/svg'' msg \<and> \<not> prefix ''/clear'' msg \<longrightarrow>
      chat e msg w = generate_response e msg w) \<and>
   length (filter (\<lambda>p. prefix p msg) [''/train'', ''/code'', ''/svg'', ''/clear'']) \<le> 1 \<and>
   chat e ''/code /svg draw a circle'' w =
     (case generate_code e ''/svg draw a circle'' w of
        (response, e1, w1) \<Rightarrow> ((response, ''Generating code''), e1, w1))"
proof (intro conjI impI)
  assume "prefix ''/train'' msg"
  then show "chat e msg w =
        (case train_mode e (strip (drop 7 msg)) w of
           (response, e1, w1) \<Rightarrow> ((response, ''Entering training mode''), e1, w1))"
    by (simp add: chat_def)
next
  assume p: "prefix ''/code'' msg"
  then have "\<not> prefix ''/train'' msg" by (auto simp add: prefix_def)
  with p show "chat e msg w =
        (case generate_code e (strip (drop 6 msg)) w of
           (response, e1, w1) \<Rightarrow> ((response, ''Generating code''), e1, w1))"
    by (simp add: chat_def)
next
  assume p: "prefix ''/svg'' msg"
  then have "\<not> prefix ''/train'' msg" "\<not> prefix ''/code'' msg" by (auto simp add: prefix_def)
  with p show "chat e msg w =
        ((''SVG created! View it at: /images/svg_'' @ str_of_int (epoch w (reads w)) @ ''.svg'',
          ''Generating SVG image''), e,
         snd (generate_svg (strip (drop 5 msg))
                (''svg_'' @ str_of_int (epoch w (reads w)) @ ''.svg'')
                (w\<lparr>reads := Suc (reads w)\<rparr>)))"
    by (simp add: chat_def time_time_def Let_def split_beta)
next
  assume p: "prefix ''/clear'' msg"
  then have "\<not> prefix ''/train'' msg" "\<not> prefix ''/code'' msg" "\<not> prefix ''/svg'' msg"
    by (auto simp add: prefix_def)
  with p show "chat e msg w =
        ((''Memory cleared!'', ''Session reset''),
         e\<lparr>memory := fst (clear_session (memory e) w)\<rparr>,
         snd (clear_session (memory e) w))"
    by (simp add: chat_def split_beta)
next
  assume "\<not> prefix ''/train'' msg \<and> \<not> prefix ''/code'' msg \<and>
    \<not> prefix ''/svg'' msg \<and> \<not> prefix ''/clear'' msg"
  then show "chat e msg w = generate_response e msg w"
    by (simp add: chat_def split_beta)
next
  show "length (filter (\<lambda>p. prefix p msg) [''/train'', ''/code'', ''/svg'', ''/clear'']) \<le> 1"
    by (rule prefixes_exclusive)
next
  show "chat e ''/code /svg draw a circle'' w =
     (case generate_code e ''/svg draw a circle'' w of
        (response, e1, w1) \<Rightarrow> ((response, ''Generating code''), e1, w1))"
    unfolding chat_def strip_example by simp
qed

theorem chat_routes_witness:
  "prefix ''/train'' ''/train be brief'' \<and>
   fst (chat example_engine ''/train be brief'' example_world) =
     (''Training mode activated. Instruction: be brief'', ''Entering training mode'') \<and>
   prefix ''/code'' ''/code /svg draw a circle'' \<and>
   snd (fst (chat example_engine ''/code /svg draw a circle'' example_world)) =
     ''Generating code'' \<and>
   prefix ''/svg'' ''/svg a star'' \<and>
   fst (chat example_engine ''/svg a star'' example_world) =
     (''SVG created! View it at: /images/svg_1700000000.svg'', ''Generating SVG image'') \<and>
   prefix ''/clear'' ''/clear'' \<and>
   fst (chat example_engine ''/clear'' example_world) = (''Memory cleared!'', ''Session reset'') \<and>
   \<not> prefix ''/train'' ''/Code x'' \<and> \<not> prefix ''/code'' ''/Code x'' \<and>
   \<not> prefix ''/svg'' ''/Code x'' \<and> \<not> prefix ''/clear'' ''/Code x'' \<and>
   chat example_engine ''/Code x'' example_world =
     generate_response example_engine ''/Code x'' example_world"
proof -
  have s: "strip ''be brief'' = ''be brief''"
    by code_simp
  have t: "str_of_int (epoch example_world (reads example_world)) = ''1700000000''"
    by code_simp
  have r1: "fst (chat example_engine ''/train be brief'' example_world) =
     (''Training mode activated. Instruction: be brief'', ''Entering training mode'')"
    using chat_routes [of "''/train be brief''" example_engine example_world]
    by (simp add: s train_mode_def split_beta Let_def)
  have r2: "snd (fst (chat example_engine ''/code /svg draw a circle'' example_world)) =
     ''Generating code''"
    using chat_routes [of "''/code /svg draw a circle''" example_engine example_world]
    by (simp add: split_beta)
  have r3: "fst (chat example_engine ''/svg a star'' example_world) =
     (''SVG created! View it at: /images/svg_1700000000.svg'', ''Generating SVG image'')"
    using chat_routes [of "''/svg a star''" example_engine example_world]
    by (simp add: t)
  have r4: "fst (chat example_engine ''/clear'' example_world) =
     (''Memory cleared!'', ''Session reset'')"
    using chat_routes [of "''/clear''" example_engine example_world]
    by simp
  have r5: "chat example_engine ''/Code x'' example_world =
     generate_response example_engine ''/Code x'' example_world"
    using chat_routes [of "''/Code x''" example_engine example_world]
    by simp
  show ?thesis
    using r1 r2 r3 r4 r5 by simp
qed

text \<open>
  C7, as stated, says that the text after the prefix \<open>/train\<close> is what the training
  stub gets. \<open>chat\<close> drops seven characters, the prefix and the character after it, and
  trims white space: from \<open>/trainabc\<close> the stub gets \<open>bc\<close>, not \<open>abc\<close>.
\<close>

theorem chat_train_counterexample:
  "prefix ''/train'' ''/trainabc'' \<and>
   strip (drop 6 ''/trainabc'') = ''abc'' \<and>
   fst (fst (chat example_engine ''/trainabc'' example_world)) =
     ''Training mode activated. Instruction: bc'' \<and>
   fst (fst (chat example_engine ''/trainabc'' example_world)) \<noteq>
     ''Training mode activated. Instruction: '' @ strip (drop 6 ''/trainabc'')"
  by code_simp

text \<open>
  C7, amended: for every message that starts with \<open>/train\<close>, the response is the fixed
  acknowledgement followed by an instruction, the diagnostic is the fixed label, and the
  only changes are that \<open>training_mode\<close> is set, that one thought holding the same
  instruction is added and that the store is saved: no turn is added. When the message is
  \<open>/train\<close> alone or has a white-space character after the prefix, the instruction is
  the text after the prefix with the white space around it trimmed.
\<close>

theorem chat_train:
  assumes "prefix ''/train'' msg"
  shows "\<exists>instruction.
    chat e msg w =
      ((''Training mode activated. Instruction: '' @ instruction, ''Entering training mode''),
       e\<lparr>training_mode := True,
         memory := (memory e)\<lparr>thinking_log := thinking_log (memory e) @
           [\<lparr>thought = ''Training instruction received: '' @ instruction,
             thought_timestamp = clock w (reads w)\<rparr>]\<rparr>\<rparr>,
       save_memory
         ((memory e)\<lparr>thinking_log := thinking_log (memory e) @
           [\<lparr>thought = ''Training instruction received: '' @ instruction,
             thought_timestamp = clock w (reads w)\<rparr>]\<rparr>)
         (w\<lparr>reads := Suc (reads w)\<rparr>)) \<and>
    (length msg = 6 \<or> (6 < length msg \<and> isspace (msg ! 6)) \<longrightarrow>
       instruction = strip (drop 6 msg))"
proof -
  have "strip (drop 7 msg) = strip (drop 6 msg)"
    if "length msg = 6 \<or> (6 < length msg \<and> isspace (msg ! 6))"
  proof (cases "length msg = 6")
    case True
    then show ?thesis by simp
  next
    case False
    with that have l: "6 < length msg" and sp: "isspace (msg ! 6)" by auto
    have "drop 6 msg = msg ! 6 # drop 7 msg"
      using Cons_nth_drop_Suc [OF l] by simp
    then show ?thesis using sp by (simp add: strip_skip_space)
  qed
  then show ?thesis
    using assms
    by (intro exI [of _ "strip (drop 7 msg)"])
       (simp add: chat_def train_mode_def add_thinking_def now_isoformat_def Let_def)
qed

theorem chat_train_witness:
  "prefix ''/train'' ''/train be brief'' \<and>
   6 < length ''/train be brief'' \<and> isspace (''/train be brief'' ! 6) \<and>
   fst (chat example_engine ''/train be brief'' example_world) =
     (''Training mode activated. Instruction: be brief'', ''Entering training mode'') \<and>
   training_mode (fst (snd (chat example_engine ''/train be brief'' example_world))) \<and>
   current_session (memory (fst (snd (chat example_engine ''/train be brief'' example_world)))) =
     current_session (memory example_engine)"
proof -
  have s: "strip (drop 6 ''/train be brief'') = ''be brief''"
    by code_simp
  have h: "6 < length ''/train be brief''" "isspace (''/train be brief'' ! 6)"
    by code_simp+
  show ?thesis
    using chat_train [of "''/train be brief''" example_engine example_world] h s
    by auto
qed

section \<open>The image emitter\<close>

text \<open>
  C6: \<open>generate_svg\<close> always writes, at \<open>cache/images/\<close> followed by the file name, a
  drawing of size 400px by 400px, and returns that path. What the drawing holds goes by
  the first of these that occurs in the description, ignoring case: \<open>circle\<close> gives
  one blue circle; \<open>rect\<close> or \<open>square\<close> gives one green rectangle; \<open>star\<close> gives
  one gold polygon on the ten fixed points; and when none occurs, a light-gray square and
  the first 20 characters of the description as text anchored at its middle.
\<close>

theorem generate_svg_classifies:
  "\<exists>els. generate_svg description filename w =
      (''cache/images/'' @ filename,
       w\<lparr>files := (files w)(''cache/images/'' @ filename \<mapsto>
            SvgFile \<lparr>dwg_filename = ''cache/images/'' @ filename,
                     dwg_size = (''400px'', ''400px''), dwg_elements = els\<rparr>)\<rparr>) \<and>
    (occurs_ignoring_case ''circle'' description \<longrightarrow>
       els = [Circle (200, 200) 100 ''blue'']) \<and>
    (\<not> occurs_ignoring_case ''circle'' description \<and>
     (occurs_ignoring_case ''rect'' description \<or>
      occurs_ignoring_case ''square'' description) \<longrightarrow>
       els = [Rect (100, 100) (200, 200) ''green'']) \<and>
    (\<not> occurs_ignoring_case ''circle'' description \<and>
     \<not> occurs_ignoring_case ''rect'' description \<and>
     \<not> occurs_ignoring_case ''square'' description \<and>
     occurs_ignoring_case ''star'' description \<longrightarrow>
       els = [Polygon star_points ''gold''] \<and> length star_points = 10) \<and>
    (\<not> occurs_ignoring_case ''circle'' description \<and>
     \<not> occurs_ignoring_case ''rect'' description \<and>
     \<not> occurs_ignoring_case ''square'' description \<and>
     \<not> occurs_ignoring_case ''star'' description \<longrightarrow>
       els = [Rect (50, 50) (300, 300) ''lightgray'',
              Text (take 20 description) (200, 200) ''middle'' ''20px''])"
proof -
  have k: "lower ''circle'' = ''circle''" "lower ''rect'' = ''rect''"
    "lower ''square'' = ''square''" "lower ''star'' = ''star''"
    by code_simp+
  have c: "sublist ''circle'' (lower description) = occurs_ignoring_case ''circle'' description"
    "sublist ''rect'' (lower description) = occurs_ignoring_case ''rect'' description"
    "sublist ''square'' (lower description) = occurs_ignoring_case ''square'' description"
    "sublist ''star'' (lower description) = occurs_ignoring_case ''star'' description"
    by (rule sublist_lower, rule k)+
  show ?thesis
    unfolding generate_svg_def c by (simp add: Let_def star_points_def)
qed

theorem generate_svg_classifies_witness:
  "occurs_ignoring_case ''circle'' ''please draw a CIRCLE'' \<and>
   drawing_at (snd (generate_svg ''please draw a CIRCLE'' ''output.svg'' example_world))
       ''cache/images/output.svg'' =
     Some \<lparr>dwg_filename = ''cache/images/output.svg'', dwg_size = (''400px'', ''400px''),
           dwg_elements = [Circle (200, 200) 100 ''blue'']\<rparr> \<and>
   \<not> occurs_ignoring_case ''circle'' ''a red square please'' \<and>
   occurs_ignoring_case ''square'' ''a red square please'' \<and>
   drawing_at (snd (generate_svg ''a red square please'' ''output.svg'' example_world))
       ''cache/images/output.svg'' =
     Some \<lparr>dwg_filename = ''cache/images/output.svg'', dwg_size = (''400px'', ''400px''),
           dwg_elements = [Rect (100, 100) (200, 200) ''green'']\<rparr> \<and>
   \<not> occurs_ignoring_case ''circle'' ''give me a star'' \<and>
   \<not> occurs_ignoring_case ''rect'' ''give me a star'' \<and>
   \<not> occurs_ignoring_case ''square'' ''give me a star'' \<and>
   occurs_ignoring_case ''star'' ''give me a star'' \<and>
   drawing_at (snd (generate_svg ''give me a star'' ''output.svg'' example_world))
       ''cache/images/output.svg'' =
     Some \<lparr>dwg_filename = ''cache/images/output.svg'', dwg_size = (''400px'', ''400px''),
           dwg_elements = [Polygon star_points ''gold'']\<rparr> \<and>
   \<not> occurs_ignoring_case ''circle'' ''hello'' \<and>
   \<not> occurs_ignoring_case ''rect'' ''hello'' \<and>
   \<not> occurs_ignoring_case ''square'' ''hello'' \<and>
   \<not> occurs_ignoring_case ''star'' ''hello'' \<and>
   drawing_at (snd (generate_svg ''hello'' ''output.svg'' example_world))
       ''cache/images/output.svg'' =
     Some \<lparr>dwg_filename = ''cache/images/output.svg'', dwg_size = (''400px'', ''400px''),
           dwg_elements = [Rect (50, 50) (300, 300) ''lightgray'',
                           Text ''hello'' (200, 200) ''middle'' ''20px'']\<rparr>"
proof -
  have k: "lower ''circle'' = ''circle''" "lower ''rect'' = ''rect''"
    "lower ''square'' = ''square''" "lower ''star'' = ''star''"
    by code_simp+
  note o = sublist_lower [OF k(1), symmetric] sublist_lower [OF k(2), symmetric]
    sublist_lower [OF k(3), symmetric] sublist_lower [OF k(4), symmetric]
  have h1: "occurs_ignoring_case ''circle'' ''please draw a CIRCLE''"
    unfolding o by code_simp
  have h2: "\<not> occurs_ignoring_case ''circle'' ''a red square please''"
    "occurs_ignoring_case ''square'' ''a red square please''"
    unfolding o by code_simp+
  have h3: "\<not> occurs_ignoring_case ''circle'' ''give me a star''"
    "\<not> occurs_ignoring_case ''rect'' ''give me a star''"
    "\<not> occurs_ignoring_case ''square'' ''give me a star''"
    "occurs_ignoring_case ''star'' ''give me a star''"
    unfolding o by code_simp+
  have h4: "\<not> occurs_ignoring_case ''circle'' ''hello''"
    "\<not> occurs_ignoring_case ''rect'' ''hello''"
    "\<not> occurs_ignoring_case ''square'' ''hello''"
    "\<not> occurs_ignoring_case ''star'' ''hello''"
    unfolding o by code_simp+
  have r1: "drawing_at (snd (generate_svg ''please draw a CIRCLE'' ''output.svg'' example_world))
       ''cache/images/output.svg'' =
     Some \<lparr>dwg_filename = ''cache/images/output.svg'', dwg_size = (''400px'', ''400px''),
           dwg_elements = [Circle (200, 200) 100 ''blue'']\<rparr>"
    using generate_svg_classifies [of "''please draw a CIRCLE''" "''output.svg''" example_world] h1
    by (auto simp add: drawing_at_def)
  have r2: "drawing_at (snd (generate_svg ''a red square please'' ''output.svg'' example_world))
       ''cache/images/output.svg'' =
     Some \<lparr>dwg_filename = ''cache/images/output.svg'', dwg_size = (''400px'', ''400px''),
           dwg_elements = [Rect (100, 100) (200, 200) ''green'']\<rparr>"
    using generate_svg_classifies [of "''a red square please''" "''output.svg''" example_world] h2
    by (auto simp add: drawing_at_def)
  have r3: "drawing_at (snd (generate_svg ''give me a star'' ''output.svg'' example_world))
       ''cache/images/output.svg'' =
     Some \<lparr>dwg_filename = ''cache/images/output.svg'', dwg_size = (''400px'', ''400px''),
           dwg_elements = [Polygon star_points ''gold'']\<rparr>"
    using generate_svg_classifies [of "''give me a star''" "''output.svg''" example_world] h3
    by (auto simp add: drawing_at_def)
  have r4: "drawing_at (snd (generate_svg ''hello'' ''output.svg'' example_world))
       ''cache/images/output.svg'' =
     Some \<lparr>dwg_filename = ''cache/images/output.svg'', dwg_size = (''400px'', ''400px''),
           dwg_elements = [Rect (50, 50) (300, 300) ''lightgray'',
                           Text ''hello'' (200, 200) ''middle'' ''20px'']\<rparr>"
    using generate_svg_classifies [of "''hello''" "''output.svg''" example_world] h4
    by (auto simp add: drawing_at_def)
  show ?thesis
    using h1 h2 h3 h4 r1 r2 r3 r4 by simp
qed

end
